theory Spec2Isabelle
  imports Main "HOL-Library.List_Lexorder" "HOL-Library.Multiset"
begin

section \<open>Strings\<close>

text \<open>
  A Python \<open>str\<close> is a sequence of Unicode code points, and is modelled as the list of
  these code points, each a natural number. \<open>str ''abc''\<close> is the string of an ASCII
  literal. Comparison of strings is by code point, left to right, a proper prefix being
  smaller: the order of \<open>List_Lexorder\<close> over the natural numbers.
\<close>

type_synonym code_point = nat

type_synonym py_str = "code_point list"

definition str :: "string \<Rightarrow> py_str" where
  "str cs = map of_char cs"

text \<open>
  \<open>str.title()\<close> reads the Unicode character database of the Python runtime, which is not
  part of the program. It is a parameter: for each code point, whether it is cased,
  whether it is case-ignorable, and its full lower-case and title-case mappings (one to
  three code points).
\<close>

record unicode_db =
  is_cased :: "code_point \<Rightarrow> bool"
  is_case_ignorable :: "code_point \<Rightarrow> bool"
  to_lower_full :: "code_point \<Rightarrow> py_str"
  to_title_full :: "code_point \<Rightarrow> py_str"

text \<open>
  Lower-casing inside \<open>title\<close> has one special case, the capital sigma U+03A3 (931). It
  becomes the final sigma U+03C2 (962) when, skipping case-ignorable characters, a cased
  character stands before it and none stands after it, and the small sigma U+03C3 (963)
  otherwise. \<open>seen\<close> is the part of the string before the character and \<open>rest\<close> the
  part after it.
\<close>

definition handle_capital_sigma :: "unicode_db \<Rightarrow> py_str \<Rightarrow> py_str \<Rightarrow> code_point" where
  "handle_capital_sigma db seen rest =
     (let final_sigma =
            (case dropWhile (is_case_ignorable db) (rev seen) of
               [] \<Rightarrow> False
             | c # earlier \<Rightarrow> is_cased db c);
          final_sigma =
            (if final_sigma then
               (case dropWhile (is_case_ignorable db) rest of
                  [] \<Rightarrow> True
                | c # later \<Rightarrow> \<not> is_cased db c)
             else final_sigma)
      in if final_sigma then 962 else 963)"

definition lower_ucs4 :: "unicode_db \<Rightarrow> py_str \<Rightarrow> code_point \<Rightarrow> py_str \<Rightarrow> py_str" where
  "lower_ucs4 db seen c rest =
     (if c = 931 then [handle_capital_sigma db seen rest] else to_lower_full db c)"

text \<open>
  \<open>str.title()\<close>: one pass from the left; a character that follows a cased character is
  lower-cased, any other character is title-cased, and the flag for the next character is
  whether the character just read (as it was in the input) is cased.
\<close>

fun do_title :: "unicode_db \<Rightarrow> py_str \<Rightarrow> bool \<Rightarrow> py_str \<Rightarrow> py_str" where
  "do_title db seen previous_is_cased [] = []"
| "do_title db seen previous_is_cased (c # rest) =
     (if previous_is_cased then lower_ucs4 db seen c rest else to_title_full db c)
     @ do_title db (seen @ [c]) (is_cased db c) rest"

definition title :: "unicode_db \<Rightarrow> py_str \<Rightarrow> py_str" where
  "title db s = do_title db [] False s"

text \<open>\<open>s.replace(old, new)\<close> for single-character \<open>old\<close> and \<open>new\<close>.\<close>

definition replace_char :: "code_point \<Rightarrow> code_point \<Rightarrow> py_str \<Rightarrow> py_str" where
  "replace_char old new s = map (\<lambda>c. if c = old then new else c) s"

text \<open>
  The white space of \<open>str.strip()\<close> and \<open>str.isspace()\<close>: the code points 9 to 13 and 28
  to 32, U+0085, U+00A0, U+1680, U+2000 to U+200A, U+2028, U+2029, U+202F, U+205F and
  U+3000.
\<close>

definition is_space :: "code_point \<Rightarrow> bool" where
  "is_space c =
     ((9 \<le> c \<and> c \<le> 13) \<or> (28 \<le> c \<and> c \<le> 32) \<or> c = 133 \<or> c
         = 160 \<or> c = 5760
      \<or> (8192 \<le> c \<and> c \<le> 8202) \<or> c = 8232 \<or> c = 8233 \<or> c = 8239 \<or> c
          = 8287
      \<or> c = 12288)"

text \<open>\<open>str.strip()\<close> with no argument: white space is removed at both ends.\<close>

definition strip :: "py_str \<Rightarrow> py_str" where
  "strip s = rev (dropWhile is_space (rev (dropWhile is_space s)))"

text \<open>
  The rows of the Unicode character database for the ASCII code points: the letters are
  the cased characters, and the mappings of a character are single characters, the
  letter of the other case or the character itself. \<open>ascii_rows db\<close> says that \<open>db\<close> has
  these rows, as every Unicode character database has.
\<close>

definition ascii_is_upper :: "code_point \<Rightarrow> bool" where
  "ascii_is_upper c = (65 \<le> c \<and> c \<le> 90)"

definition ascii_is_lower :: "code_point \<Rightarrow> bool" where
  "ascii_is_lower c = (97 \<le> c \<and> c \<le> 122)"

definition ascii_to_lower :: "code_point \<Rightarrow> code_point" where
  "ascii_to_lower c = (if ascii_is_upper c then c + 32 else c)"

definition ascii_to_upper :: "code_point \<Rightarrow> code_point" where
  "ascii_to_upper c = (if ascii_is_lower c then c - 32 else c)"

definition ascii_rows :: "unicode_db \<Rightarrow> bool" where
  "ascii_rows db =
     list_all (\<lambda>c. is_cased db c = (ascii_is_upper c \<or> ascii_is_lower c)
                  \<and> to_lower_full db c = [ascii_to_lower c]
                  \<and> to_title_full db c = [ascii_to_upper c]) [0..<128]"

definition is_ascii :: "py_str \<Rightarrow> bool" where
  "is_ascii s = list_all (\<lambda>c. c < 128) s"

section \<open>Language names and options\<close>

text \<open>
  The catalog is the dictionary \<open>{name: code}\<close> of the provider. The program only iterates
  over it (\<open>supported.items()\<close>), so it is kept as the list of its items in iteration
  order. A language option is a pair \<open>(label, code)\<close>.
\<close>

type_synonym catalog = "(py_str \<times> py_str) list"

type_synonym language_option = "py_str \<times> py_str"

text \<open>Line 48; the code points 95 and 32 are the underscore and the space.\<close>

definition format_language_name :: "unicode_db \<Rightarrow> py_str \<Rightarrow> py_str" where
  "format_language_name db raw_name = title db (replace_char 95 32 raw_name)"

text \<open>
  Lines 61 to 64. Python's \<open>sorted\<close> is a stable ascending sort on the key, here the
  label; \<open>sort_key\<close> is one too, and a stable sort has one result only.
\<close>

definition sorted_items :: "unicode_db \<Rightarrow> catalog \<Rightarrow> language_option list" where
  "sorted_items db supported =
     sort_key fst (map (\<lambda>(name, code). (format_language_name db name, code)) supported)"

text \<open>Lines 66 to 68: the pair \<open>(origin_options, target_options)\<close> for a given catalog.\<close>

definition language_options ::
  "unicode_db \<Rightarrow> catalog \<Rightarrow> language_option list \<times> language_option list" where
  "language_options db supported =
     (let origin_options =
            (str ''Detectar automaticamente'', str ''auto'') # sorted_items db supported;
          target_options = sorted_items db supported
      in (origin_options, target_options))"

text \<open>
  \<open>find_index\<close>, lines 98 to 102. \<open>find_index_from idx\<close> is the loop over
  \<open>enumerate(options)\<close> when the next index to be handed out is \<open>idx\<close>; running off the end
  of the list is the \<open>return 0\<close> after the loop.
\<close>

fun find_index_from :: "nat \<Rightarrow> language_option list \<Rightarrow> py_str \<Rightarrow> nat" where
  "find_index_from idx [] code = 0"
| "find_index_from idx ((label, opt_code) # rest) code =
     (if opt_code = code then idx else find_index_from (Suc idx) rest code)"

definition find_index :: "language_option list \<Rightarrow> py_str \<Rightarrow> nat" where
  "find_index options code = find_index_from 0 options code"

section \<open>Exceptions, the provider and the state of the process\<close>

text \<open>
  A value of \<open>py_exception\<close> is an instance of Python's \<open>Exception\<close>: \<open>TypeError m\<close> is an
  instance of \<open>TypeError\<close> (the class the loader's \<open>except\<close> clause names), and
  \<open>OtherError cls m\<close> an instance of any other class \<open>cls\<close>. A function that may raise
  returns \<open>py_exception + 'a\<close>, \<open>Inl\<close> being the raise.
\<close>

datatype py_exception = TypeError string | OtherError string string

text \<open>
  The provider is the class \<open>GoogleTranslator\<close> of \<open>deep_translator\<close>, which is not part of
  the program. It is a parameter: what each of the three operations the program uses
  answers during one render pass.
  \<^item> \<open>class_get_supported_languages\<close>: \<open>GoogleTranslator.get_supported_languages(as_dict=True)\<close>;
  \<^item> \<open>instance_get_supported_languages\<close>:
    \<open>GoogleTranslator(source="auto", target="en").get_supported_languages(as_dict=True)\<close>;
  \<^item> \<open>translate p source target text\<close>:
    \<open>GoogleTranslator(source=source, target=target).translate(text)\<close>.
\<close>

record provider =
  class_get_supported_languages :: "py_exception + catalog"
  instance_get_supported_languages :: "py_exception + catalog"
  translate :: "py_str \<Rightarrow> py_str \<Rightarrow> py_str \<Rightarrow> py_exception + py_str"

datatype call =
    Call_class_accessor
  | Call_instance_accessor
  | Call_translate py_str py_str py_str

fun is_translate_call :: "call \<Rightarrow> bool" where
  "is_translate_call (Call_translate source target text) = True"
| "is_translate_call c = False"

text \<open>
  The texts shown to the user are Portuguese literals of the source; they are named here
  by the line that shows them: 136, 140, 144, 152 and 156.
\<close>

datatype message =
    Prompt_for_text
  | Target_cannot_be_auto
  | Same_languages
  | Translation_done
  | Translation_failed

text \<open>
  What a render pass puts on the page, one constructor per Streamlit call of the source.
  A select box carries its \<open>options\<close> and its \<open>index\<close> argument; \<open>Translation_area v\<close> is
  the disabled text area of lines 145 and 153 with value \<open>v\<close>; \<open>Expander_exception e\<close> is
  the expander of lines 157 and 158 holding \<open>st.exception(e)\<close>.
\<close>

datatype element =
    Page_config
  | Title
  | Caption
  | Divider
  | Subheader
  | Text_area_input
  | Blank
  | Selectbox_origin "language_option list" nat
  | Selectbox_target "language_option list" nat
  | Button
  | Warning message
  | Error message
  | Info message
  | Success message
  | Spinner
  | Translation_area py_str
  | Expander_exception py_exception
  | Footer_caption

text \<open>
  The state a pass reads and writes: the entry of the memoization cache for
  \<open>get_supported_languages\<close>, the provider operations invoked since the process started
  (oldest first), and the elements put on the page in the current pass.
\<close>

record app_state =
  cache :: "catalog option"
  calls :: "call list"
  screen :: "element list"

definition emit :: "element \<Rightarrow> app_state \<Rightarrow> app_state" where
  "emit e st = st\<lparr>screen := screen st @ [e]\<rparr>"

definition invoke :: "call \<Rightarrow> app_state \<Rightarrow> app_state" where
  "invoke c st = st\<lparr>calls := calls st @ [c]\<rparr>"

text \<open>
  What the user has entered when a pass starts: the content of the text area, the
  position picked in each select box (\<open>None\<close> while the user has picked nothing, as on the
  first render), and whether the pass was triggered by the button.
\<close>

record ui_input =
  text_to_translate :: py_str
  source_choice :: "nat option"
  target_choice :: "nat option"
  translate_clicked :: bool

section \<open>The catalog loader\<close>

text \<open>The body of \<open>get_supported_languages\<close>, lines 38 to 43.\<close>

definition get_supported_languages_body ::
  "provider \<Rightarrow> app_state \<Rightarrow> (py_exception + catalog) \<times> app_state" where
  "get_supported_languages_body prov st =
     (let st1 = invoke Call_class_accessor st in
      case class_get_supported_languages prov of
        Inr supported \<Rightarrow> (Inr supported, st1)
      | Inl exc \<Rightarrow>
          (case exc of
             TypeError m \<Rightarrow>
               (instance_get_supported_languages prov, invoke Call_instance_accessor st1)
           | OtherError cls m \<Rightarrow> (Inl exc, st1)))"

text \<open>
  Modelled from the spec: the decorator \<open>st.cache_data\<close> of line 28 belongs to Streamlit and
  is not in the repository. The spec describes it as lazily initialised shared state with
  a one-time-fill guard: a filled entry is returned without running the body; otherwise
  the body runs, and a value it returns fills the entry, while an exception it raises
  passes through and leaves the entry empty.
\<close>

definition cache_data ::
  "(app_state \<Rightarrow> (py_exception + catalog) \<times> app_state)
     \<Rightarrow> app_state \<Rightarrow> (py_exception + catalog) \<times> app_state" where
  "cache_data body st =
     (case cache st of
        Some cached \<Rightarrow> (Inr cached, st)
      | None \<Rightarrow>
          (case body st of
             (Inr v, st') \<Rightarrow> (Inr v, st'\<lparr>cache := Some v\<rparr>)
           | (Inl exc, st') \<Rightarrow> (Inl exc, st')))"

definition get_supported_languages ::
  "provider \<Rightarrow> app_state \<Rightarrow> (py_exception + catalog) \<times> app_state" where
  "get_supported_languages prov = cache_data (get_supported_languages_body prov)"

text \<open>\<open>build_language_options\<close>, lines 58 to 68: the load, then the pure part above.\<close>

definition build_language_options ::
  "unicode_db \<Rightarrow> provider \<Rightarrow> app_state
     \<Rightarrow> (py_exception + language_option list \<times> language_option list) \<times> app_state" where
  "build_language_options db prov st =
     (case get_supported_languages prov st of
        (Inl exc, st') \<Rightarrow> (Inl exc, st')
      | (Inr supported, st') \<Rightarrow> (Inr (language_options db supported), st'))"

section \<open>The translation invoker\<close>

definition translate_text ::
  "provider \<Rightarrow> py_str \<Rightarrow> py_str \<Rightarrow> py_str \<Rightarrow> app_state
     \<Rightarrow> (py_exception + py_str) \<times> app_state" where
  "translate_text prov text source_code target_code st =
     (translate prov source_code target_code text,
      invoke (Call_translate source_code target_code text) st)"

section \<open>The presentation layer\<close>

definition configure_page :: "app_state \<Rightarrow> app_state" where
  "configure_page st = emit Page_config st"

definition render_header :: "app_state \<Rightarrow> app_state" where
  "render_header st = emit Divider (emit Caption (emit Title st))"

definition default_source :: py_str where
  "default_source = str ''auto''"

definition default_target :: py_str where
  "default_target = str ''en''"

text \<open>
  Modelled from the spec: the widget \<open>st.selectbox(options=..., index=...)\<close> is Streamlit's
  and not in the repository. It returns the option at the position the user picked, or,
  while the user has picked nothing (the spec's first render), the option at \<open>index\<close>.
  A list with no option at that position (the empty list above all) gives Python's
  \<open>None\<close>, here \<open>None\<close>.
\<close>

definition selectbox ::
  "language_option list \<Rightarrow> nat \<Rightarrow> nat option \<Rightarrow> language_option option" where
  "selectbox options index choice =
     (let i = (case choice of None \<Rightarrow> index | Some picked \<Rightarrow> picked)
      in if i < length options then Some (options ! i) else None)"

text \<open>
  The assignments \<open>source_label, source_code = ...\<close> and \<open>target_label, target_code = ...\<close>
  unpack a pair; on \<open>None\<close> Python raises this \<open>TypeError\<close>.
\<close>

definition unpack_error :: py_exception where
  "unpack_error = TypeError ''cannot unpack non-iterable NoneType object''"

text \<open>
  \<open>render_app\<close>, lines 90 to 132: the header, the options, the text area, the two select
  boxes and the button. The result is \<open>(source_code, target_code)\<close>; the text and the
  click are read from the input. An exception of the catalog load is not handled here
  and leaves the function.
\<close>

definition render_app_controls ::
  "unicode_db \<Rightarrow> provider \<Rightarrow> ui_input \<Rightarrow> app_state
     \<Rightarrow> (py_exception + py_str \<times> py_str) \<times> app_state" where
  "render_app_controls db prov inp st0 =
     (case build_language_options db prov (render_header st0) of
        (Inl exc, st1) \<Rightarrow> (Inl exc, st1)
      | (Inr (origin_options, target_options), st1) \<Rightarrow>
          (let st2 = emit Blank (emit Text_area_input (emit Subheader st1));
               st3 = emit (Selectbox_origin origin_options
                             (find_index origin_options default_source)) st2
           in case selectbox origin_options (find_index origin_options default_source)
                     (source_choice inp) of
                None \<Rightarrow> (Inl unpack_error, st3)
              | Some (source_label, source_code) \<Rightarrow>
                  (let st4 = emit (Selectbox_target target_options
                                     (find_index target_options default_target)) st3
                   in case selectbox target_options (find_index target_options default_target)
                             (target_choice inp) of
                        None \<Rightarrow> (Inl unpack_error, st4)
                      | Some (target_label, target_code) \<Rightarrow>
                          (Inr (source_code, target_code), emit Button (emit Blank st4)))))"

definition render_footer :: "app_state \<Rightarrow> app_state" where
  "render_footer st = emit Footer_caption (emit Divider st)"

text \<open>
  \<open>render_app\<close>, lines 134 to 163, after the controls. The three \<open>return\<close> statements of
  lines 137, 141 and 146 leave the function before the footer; the \<open>try\<close> of line 148
  catches every \<open>Exception\<close> of \<open>translate_text\<close>.
\<close>

definition render_app ::
  "unicode_db \<Rightarrow> provider \<Rightarrow> ui_input \<Rightarrow> app_state
     \<Rightarrow> (py_exception + unit) \<times> app_state" where
  "render_app db prov inp st0 =
     (case render_app_controls db prov inp st0 of
        (Inl exc, st) \<Rightarrow> (Inl exc, st)
      | (Inr (source_code, target_code), st) \<Rightarrow>
          if translate_clicked inp then
            if strip (text_to_translate inp) = [] then
              (Inr (), emit (Warning Prompt_for_text) st)
            else if target_code = str ''auto'' then
              (Inr (), emit (Error Target_cannot_be_auto) st)
            else if source_code \<noteq> str ''auto'' \<and> source_code = target_code then
              (Inr (), emit (Translation_area (text_to_translate inp))
                         (emit (Info Same_languages) st))
            else
              (case translate_text prov (text_to_translate inp) source_code target_code
                      (emit Spinner st) of
                 (Inr translated, st') \<Rightarrow>
                   (Inr (), render_footer (emit (Translation_area translated)
                                             (emit (Success Translation_done) st')))
               | (Inl exc, st') \<Rightarrow>
                   (Inr (), render_footer (emit (Expander_exception exc)
                                             (emit (Error Translation_failed) st'))))
          else (Inr (), render_footer st))"

text \<open>\<open>main\<close>, lines 166 to 169, and a render pass: \<open>main\<close> run on an empty page.\<close>

definition main ::
  "unicode_db \<Rightarrow> provider \<Rightarrow> ui_input \<Rightarrow> app_state
     \<Rightarrow> (py_exception + unit) \<times> app_state" where
  "main db prov inp st = render_app db prov inp (configure_page st)"

definition render_pass :: "unicode_db \<Rightarrow> provider \<times> ui_input \<Rightarrow> app_state \<Rightarrow> app_state" where
  "render_pass db pass st = snd (main db (fst pass) (snd pass) (st\<lparr>screen := []\<rparr>))"

definition render_passes ::
  "unicode_db
      \<Rightarrow> (provider \<times> ui_input) list \<Rightarrow> app_state \<Rightarrow> app_state" where
  "render_passes db passes st = fold (render_pass db) passes st"

section \<open>Example values\<close>

text \<open>Concrete catalogs, providers, states and inputs on which the theorems below are run.\<close>

text \<open>
  An excerpt of the Unicode character database: the rows of the ASCII code points, of the
  capital I with dot above U+0130 (304), which is cased and whose lower case is the two
  code points 105 and 775, and of the combining dot above U+0307 (775), which is not cased
  and is case-ignorable. The case-ignorable ASCII characters are the apostrophe, the full
  stop, the colon, the circumflex and the grave accent. It is used at strings of these
  code points only.
\<close>

definition unicode_excerpt :: unicode_db where
  "unicode_excerpt =
     \<lparr>is_cased = (\<lambda>c. ascii_is_upper c \<or> ascii_is_lower c \<or> c = 304),
      is_case_ignorable = (\<lambda>c. c \<in> set [39, 46, 58, 94, 96, 775]),
      to_lower_full = (\<lambda>c. if c = 304 then [105, 775] else [ascii_to_lower c]),
      to_title_full = (\<lambda>c. [ascii_to_upper c])\<rparr>"

definition example_options :: "language_option list" where
  "example_options =
     [(str ''Afrikaans'', str ''af''), (str ''English'', str ''en''),
      (str ''English (Uk)'', str ''en'')]"

definition example_catalog :: catalog where
  "example_catalog =
     [(str ''portuguese'', str ''pt''), (str ''english'', str ''en''),
      (str ''afrikaans'', str ''af'')]"

definition auto_catalog :: catalog where
  "auto_catalog = [(str ''automatic'', str ''auto'')]"

definition tied_catalog :: catalog where
  "tied_catalog = [(str ''a_b'', str ''x''), (str ''english'', str ''en''),
      (str ''a b'', str ''y'')]"

definition tied_catalog_permuted :: catalog where
  "tied_catalog_permuted =
     [(str ''a b'', str ''y''), (str ''english'', str ''en''), (str ''a_b'', str ''x'')]"

definition example_target_options :: "language_option list" where
  "example_target_options =
     [(str ''Afrikaans'', str ''af''), (str ''English'', str ''en''),
         (str ''Portuguese'', str ''pt'')]"

definition example_origin_options :: "language_option list" where
  "example_origin_options =
      (str ''Detectar automaticamente'', str ''auto'') # example_target_options"

definition connection_error :: py_exception where
  "connection_error = OtherError ''ConnectionError'' ''provider unreachable''"

definition example_provider :: "catalog \<Rightarrow> provider" where
  "example_provider supported =
     \<lparr>class_get_supported_languages = Inr supported,
      instance_get_supported_languages = Inr supported,
      translate = (\<lambda>source target text. Inr (str ''Ola mundo''))\<rparr>"

definition legacy_provider :: provider where
  "legacy_provider =
     \<lparr>class_get_supported_languages
         = Inl (TypeError ''missing 1 required positional argument''),
      instance_get_supported_languages = Inr example_catalog,
      translate = (\<lambda>source target text. Inr (str ''Ola mundo''))\<rparr>"

definition unreachable_provider :: provider where
  "unreachable_provider =
     \<lparr>class_get_supported_languages = Inl connection_error,
      instance_get_supported_languages = Inl connection_error,
      translate = (\<lambda>source target text. Inl connection_error)\<rparr>"

definition failing_translate_provider :: provider where
  "failing_translate_provider =
     \<lparr>class_get_supported_languages = Inr example_catalog,
      instance_get_supported_languages = Inr example_catalog,
      translate = (\<lambda>source target text. Inl connection_error)\<rparr>"

definition initial_state :: app_state where
  "initial_state = \<lparr>cache = None, calls = [], screen = []\<rparr>"

definition first_render :: ui_input where
  "first_render =
     \<lparr>text_to_translate = [], source_choice = None, target_choice = None,
      translate_clicked = False\<rparr>"

definition submit :: "py_str \<Rightarrow> nat option \<Rightarrow> nat option \<Rightarrow> ui_input" where
  "submit text source target =
     \<lparr>text_to_translate = text, source_choice = source, target_choice = target,
      translate_clicked = True\<rparr>"

definition loaded_state :: "catalog \<Rightarrow> app_state" where
  "loaded_state supported =
     \<lparr>cache = Some supported, calls = [Call_class_accessor], screen = []\<rparr>"

definition later_passes :: "(provider \<times> ui_input) list" where
  "later_passes =
     [(unreachable_provider, first_render),
      (example_provider auto_catalog, submit (str ''Hello world'') None (Some 2))]"

definition blank_submit :: ui_input where
  "blank_submit = submit (str ''   '') (Some 2) (Some 1)"

definition auto_target_submit :: ui_input where
  "auto_target_submit = submit (str ''Hello world'') None None"

definition nbsp_submit :: ui_input where
  "nbsp_submit = submit [160, 8195] None None"

definition echo_submit :: ui_input where
  "echo_submit = submit (str '' Test '') (Some 2) (Some 1)"

definition hello_submit :: ui_input where
  "hello_submit = submit (str ''Hello world'') None (Some 2)"

section \<open>Facts about the string functions\<close>

lemma ascii_rowsD:
  assumes "ascii_rows db" and "c < 128"
  shows "is_cased db c = (ascii_is_upper c \<or> ascii_is_lower c)"
    and "to_lower_full db c = [ascii_to_lower c]"
    and "to_title_full db c = [ascii_to_upper c]"
  using assms by (simp_all add: ascii_rows_def list_all_iff)

lemma lower_ucs4_ascii:
  "ascii_rows db \<Longrightarrow> c < 128 \<Longrightarrow> lower_ucs4 db seen c rest
      = [ascii_to_lower c]"
  by (simp add: lower_ucs4_def ascii_rowsD)

lemma ascii_to_lower_facts:
  "c < 128 \<Longrightarrow> ascii_to_lower c < 128"
  "ascii_to_lower (ascii_to_lower c) = ascii_to_lower c"
  "(ascii_is_upper (ascii_to_lower c) \<or> ascii_is_lower (ascii_to_lower c))
     = (ascii_is_upper c \<or> ascii_is_lower c)"
  "c \<noteq> 95 \<Longrightarrow> ascii_to_lower c \<noteq> 95"
  by (auto simp: ascii_to_lower_def ascii_is_upper_def ascii_is_lower_def)

lemma ascii_to_upper_facts:
  "c < 128 \<Longrightarrow> ascii_to_upper c < 128"
  "ascii_to_upper (ascii_to_upper c) = ascii_to_upper c"
  "(ascii_is_upper (ascii_to_upper c) \<or> ascii_is_lower (ascii_to_upper c))
     = (ascii_is_upper c \<or> ascii_is_lower c)"
  "c \<noteq> 95 \<Longrightarrow> ascii_to_upper c \<noteq> 95"
  by (auto simp: ascii_to_upper_def ascii_is_upper_def ascii_is_lower_def)

lemma do_title_ascii_step:
  assumes "ascii_rows db" and "c < 128"
  shows "do_title db seen b (c # s) =
     (if b then ascii_to_lower c else ascii_to_upper c)
       # do_title db (seen @ [c]) (ascii_is_upper c \<or> ascii_is_lower c) s"
  using assms by (simp add: lower_ucs4_ascii ascii_rowsD)

lemma do_title_ascii_keeps:
  assumes "ascii_rows db"
  shows "\<forall>c\<in>set s. c < 128 \<and> c \<noteq> 95 \<Longrightarrow>
         \<forall>c\<in>set (do_title db seen b s). c < 128 \<and> c \<noteq> 95"
proof (induction s arbitrary: seen b)
  case Nil
  then show ?case by simp
next
  case (Cons c s)
  then have c: "c < 128" "c \<noteq> 95" and s: "\<forall>c\<in>set s. c < 128 \<and> c
      \<noteq> 95" by simp_all
  from Cons.IH [OF s] c show ?case
    unfolding do_title_ascii_step [OF assms c(1)]
    by (simp add: ascii_to_lower_facts ascii_to_upper_facts)
qed

lemma do_title_ascii_is_ascii:
  assumes "ascii_rows db"
  shows "\<forall>c\<in>set s. c < 128 \<Longrightarrow> \<forall>c\<in>set (do_title db seen b s). c < 128"
proof (induction s arbitrary: seen b)
  case Nil
  then show ?case by simp
next
  case (Cons c s)
  then have c: "c < 128" and s: "\<forall>c\<in>set s. c < 128" by simp_all
  from Cons.IH [OF s] c show ?case
    unfolding do_title_ascii_step [OF assms c]
    by (simp add: ascii_to_lower_facts ascii_to_upper_facts)
qed

lemma do_title_ascii_idem:
  assumes "ascii_rows db"
  shows "\<forall>c\<in>set s. c < 128 \<Longrightarrow>
         do_title db seen' b (do_title db seen b s) = do_title db seen b s"
proof (induction s arbitrary: seen seen' b)
  case Nil
  then show ?case by simp
next
  case (Cons c s)
  then have c: "c < 128" and s: "\<forall>c\<in>set s. c < 128" by simp_all
  let ?m = "if b then ascii_to_lower c else ascii_to_upper c"
  have m: "?m < 128" using c by (simp add: ascii_to_lower_facts ascii_to_upper_facts)
  have cased: "(ascii_is_upper ?m \<or> ascii_is_lower ?m)
      = (ascii_is_upper c \<or> ascii_is_lower c)"
    by (simp add: ascii_to_lower_facts ascii_to_upper_facts)
  have again: "(if b then ascii_to_lower ?m else ascii_to_upper ?m) = ?m"
    by (simp add: ascii_to_lower_facts ascii_to_upper_facts)
  show ?case
    unfolding do_title_ascii_step [OF assms c] do_title_ascii_step [OF assms m] cased again
    using Cons.IH [OF s] by simp
qed

lemma replace_char_absent: "old \<notin> set s \<Longrightarrow> replace_char old new s = s"
  by (induction s) (auto simp: replace_char_def)

lemma replace_char_set:
  "set (replace_char old new s) \<subseteq> insert new (set s - {old})"
  by (auto simp: replace_char_def)

lemma format_dotted_capital_i:
  assumes "ascii_rows db"
    and "is_cased db 304" and "to_lower_full db 304 = [105, 775]"
    and "\<not> is_cased db 775" and "to_lower_full db 775 = [775]"
  shows "format_language_name db [97, 304, 97] = [65, 105, 775, 97]"
    and "format_language_name db (format_language_name db [97, 304, 97]) = [65, 105, 775, 65]"
proof -
  have a: "is_cased db 97" "is_cased db 65" "is_cased db 105"
    "to_title_full db 97 = [65]" "to_title_full db 65 = [65]"
    "to_lower_full db 97 = [97]" "to_lower_full db 105 = [105]"
    using assms(1)
    by (simp_all add: ascii_rowsD ascii_is_upper_def ascii_is_lower_def ascii_to_lower_def
          ascii_to_upper_def)
  show one: "format_language_name db [97, 304, 97] = [65, 105, 775, 97]"
    using a assms(2,3)
    by (simp add: format_language_name_def title_def replace_char_def lower_ucs4_def)
  show "format_language_name db (format_language_name db [97, 304, 97]) = [65, 105, 775, 65]"
    unfolding one using a assms(4,5)
    by (simp add: format_language_name_def title_def replace_char_def lower_ucs4_def)
qed

text \<open>
  Claim C6, as amended. For every catalog key made of ASCII characters only, formatting
  the language name is idempotent: \<open>format_language_name\<close> applied twice gives the same
  string as applied once, whatever the character database says beyond ASCII.
\<close>

theorem format_language_name_idempotent_ascii:
  assumes "ascii_rows db" and "is_ascii raw_name"
  shows "format_language_name db (format_language_name db raw_name)
           = format_language_name db raw_name"
proof -
  let ?r = "replace_char 95 32 raw_name"
  from assms(2) have "\<forall>c\<in>set raw_name. c < 128" by (simp add: is_ascii_def list_all_iff)
  with replace_char_set [of 95 32 raw_name]
  have r: "\<forall>c\<in>set ?r. c < 128 \<and> c \<noteq> 95" by auto
  then have r': "\<forall>c\<in>set ?r. c < 128" by simp
  from do_title_ascii_keeps [OF assms(1) r, of "[]" False]
  have "95 \<notin> set (title db ?r)" by (auto simp: title_def)
  then have "replace_char 95 32 (title db ?r) = title db ?r" by (rule replace_char_absent)
  then show ?thesis
    by (simp add: format_language_name_def title_def do_title_ascii_idem [OF assms(1) r'])
qed

theorem format_language_name_idempotent_ascii_witness:
  "ascii_rows unicode_excerpt
   \<and> is_ascii (str ''haitian_creole'')
   \<and> format_language_name unicode_excerpt
        (format_language_name unicode_excerpt (str ''haitian_creole''))
      = format_language_name unicode_excerpt (str ''haitian_creole'')
   \<and> format_language_name unicode_excerpt (str ''haitian_creole'') = str ''Haitian Creole''"
proof -
  have r: "ascii_rows unicode_excerpt" by code_simp
  have a: "is_ascii (str ''haitian_creole'')" by code_simp
  have v: "format_language_name unicode_excerpt (str ''haitian_creole'') = str ''Haitian Creole''"
    by code_simp
  show ?thesis using r a format_language_name_idempotent_ascii [OF r a] v by (intro conjI)
qed

theorem format_language_name_idempotent_counterexample:
  "format_language_name unicode_excerpt [97, 304, 97] = [65, 105, 775, 97]
   \<and> format_language_name unicode_excerpt (format_language_name unicode_excerpt [97, 304, 97])
      = [65, 105, 775, 65]
   \<and> format_language_name unicode_excerpt (format_language_name unicode_excerpt [97, 304, 97])
      \<noteq> format_language_name unicode_excerpt [97, 304, 97]"
  by code_simp
section \<open>Facts about \<open>find_index\<close>\<close>

lemma find_index_from_absent:
  "code \<notin> snd ` set options \<Longrightarrow> find_index_from idx options code = 0"
  by (induction idx options code rule: find_index_from.induct) auto

lemma find_index_from_present:
  "code \<in> snd ` set options \<Longrightarrow>
   \<exists>k<length options. find_index_from idx options code = idx + k
      \<and> snd (options ! k) = code \<and> (\<forall>j<k. snd (options ! j) \<noteq> code)"
proof (induction idx options code rule: find_index_from.induct)
  case (1 idx code)
  then show ?case by simp
next
  case (2 idx label opt_code rest code)
  show ?case
  proof (cases "opt_code = code")
    case True
    then show ?thesis by (intro exI [of _ 0]) simp
  next
    case False
    with 2 have "code \<in> snd ` set rest" by auto
    with 2 False obtain k where k: "k < length rest"
      "find_index_from (Suc idx) rest code = Suc idx + k"
      "snd (rest ! k) = code" "\<forall>j<k. snd (rest ! j) \<noteq> code"
      by blast
    have "\<forall>j<Suc k. snd (((label, opt_code) # rest) ! j) \<noteq> code"
      using False k(4) by (simp add: nth_Cons split: nat.splits)
    with k False show ?thesis by (intro exI [of _ "Suc k"]) simp
  qed
qed

lemma find_index_present:
  assumes "code \<in> snd ` set options"
  shows "find_index options code < length options
    \<and> snd (options ! find_index options code) = code
    \<and> (\<forall>j < find_index options code. snd (options ! j) \<noteq> code)"
  using find_index_from_present [OF assms, of 0] by (auto simp: find_index_def)

lemma find_index_absent: "code \<notin> snd ` set options \<Longrightarrow> find_index options code
    = 0"
  by (simp add: find_index_def find_index_from_absent)

lemma find_index_in_bounds: "options
    \<noteq> [] \<Longrightarrow> find_index options code < length options"
  by (cases "code \<in> snd ` set options") (simp_all add: find_index_present find_index_absent)

text \<open>
  Claim C10. For every list of options and every code, \<open>find_index\<close> returns the index of
  the first option whose code is the given one when there is such an option, and \<open>0\<close>
  otherwise; so on a non-empty list the result is an index of the list.
\<close>

theorem find_index_first_match_or_zero:
  "(code \<in> snd ` set options \<longrightarrow>
      find_index options code < length options
      \<and> snd (options ! find_index options code) = code
      \<and> (\<forall>j < find_index options code. snd (options ! j) \<noteq> code))
   \<and> (code \<notin> snd ` set options \<longrightarrow> find_index options code = 0)
   \<and> (options \<noteq> [] \<longrightarrow> find_index options code < length options)"
  using find_index_present find_index_absent find_index_in_bounds by blast

theorem find_index_first_match_or_zero_witness:
  "str ''en'' \<in> snd ` set example_options
   \<and> find_index example_options (str ''en'') = 1
   \<and> snd (example_options ! find_index example_options (str ''en'')) = str ''en''
   \<and> snd (example_options ! 0) \<noteq> str ''en''
   \<and> str ''pt'' \<notin> snd ` set example_options
   \<and> find_index example_options (str ''pt'') = 0
   \<and> example_options \<noteq> []
   \<and> find_index example_options (str ''pt'') < length example_options"
proof -
  have en: "str ''en'' \<in> snd ` set example_options" by (simp add: example_options_def)
  have pt: "str ''pt'' \<notin> snd ` set example_options"
    by (simp add: example_options_def str_def)
  have ne: "example_options \<noteq> []" by (simp add: example_options_def)
  have one: "find_index example_options (str ''en'') = 1" by code_simp
  have zero: "snd (example_options ! 0) \<noteq> str ''en''" by code_simp
  note t1 = find_index_first_match_or_zero [of "str ''en''" example_options]
  note t2 = find_index_first_match_or_zero [of "str ''pt''" example_options]
  have a: "snd (example_options ! find_index example_options (str ''en'')) = str ''en''"
    using mp [OF conjunct1 [OF t1] en] by (elim conjE)
  have d: "find_index example_options (str ''pt'') = 0"
    using conjunct1 [OF conjunct2 [OF t2]] pt by (rule mp)
  have e: "find_index example_options (str ''pt'') < length example_options"
    using conjunct2 [OF conjunct2 [OF t2]] ne by (rule mp)
  show ?thesis by (intro conjI en one a zero pt d ne e)
qed

section \<open>Facts about the options\<close>

lemma sorted_items_sorted: "sorted (map fst (sorted_items db supported))"
  by (simp add: sorted_items_def)

lemma sorted_items_stable:
  "filter (\<lambda>opt. fst opt = label) (sorted_items db supported)
   = filter (\<lambda>opt. fst opt = label)
       (map (\<lambda>(name, code). (format_language_name db name, code)) supported)"
  unfolding sorted_items_def by (rule sort_key_stable)

lemma sorted_items_mset:
  "mset (sorted_items db supported)
   = mset (map (\<lambda>(name, code). (format_language_name db name, code)) supported)"
  by (simp add: sorted_items_def)

lemma sorted_items_labels:
  "map fst (sorted_items db supported)
      = sort (map (\<lambda>(name, code). format_language_name db name) supported)"
proof -
  let ?items = "map (\<lambda>(name, code). (format_language_name db name, code)) supported"
  have eq: "map fst ?items = map (\<lambda>(name, code). format_language_name db name) supported"
    by (induction supported) auto
  have "mset (map fst (sorted_items db supported)) = mset (map fst ?items)"
    unfolding sorted_items_def by (simp only: mset_map mset_sort)
  then have "mset (map fst (sorted_items db supported))
      = mset (map (\<lambda>(name, code). format_language_name db name) supported)"
    by (simp only: eq)
  from properties_for_sort [OF this sorted_items_sorted] show ?thesis by (rule sym)
qed

lemma sorted_items_codes: "snd ` set (sorted_items db supported) = snd ` set supported"
  by (simp add: sorted_items_def image_image case_prod_beta)

text \<open>
  Claim C3, as amended. For every catalog, \<open>origin_options\<close> is \<open>target_options\<close> with the
  one entry \<open>("Detectar automaticamente", "auto")\<close> put in front: it has exactly one entry
  more, and its first entry has the code \<open>"auto"\<close>. The synthetic entry is never added to
  \<open>target_options\<close>, which has an entry with the code \<open>"auto"\<close> exactly when the catalog
  itself gives that code to some language.
\<close>

theorem origin_options_prepend_auto:
  assumes "language_options db supported = (origin_options, target_options)"
  shows "origin_options = (str ''Detectar automaticamente'', str ''auto'') # target_options
       \<and> length origin_options = Suc (length target_options)
       \<and> snd (hd origin_options) = str ''auto''
       \<and> ((str ''auto'' \<in> snd ` set target_options) =
           (str ''auto'' \<in> snd ` set supported))"
proof -
  from assms have o: "origin_options =
      (str ''Detectar automaticamente'', str ''auto'') # target_options"
    and t: "target_options = sorted_items db supported"
    by (auto simp: language_options_def Let_def)
  from t have "snd ` set target_options = snd ` set supported" by (simp only: sorted_items_codes)
  with o show ?thesis by simp
qed

theorem origin_options_prepend_auto_witness:
  "language_options unicode_excerpt example_catalog =
     (example_origin_options,
      example_target_options)
   \<and> length example_origin_options
       = Suc (length example_target_options)
   \<and> ((str ''auto'' \<in> snd ` set example_target_options)
        = (str ''auto'' \<in> snd ` set example_catalog))"
proof -
  have h: "language_options unicode_excerpt example_catalog =
     (example_origin_options,
      example_target_options)"
    by code_simp
  from origin_options_prepend_auto [OF h] h show ?thesis by (intro conjI) (elim conjE, assumption)+
qed

theorem target_options_auto_counterexample:
  "fst (language_options unicode_excerpt auto_catalog)
      \<noteq> (str ''Detect automatically'', str ''auto'') # snd (language_options unicode_excerpt auto_catalog)
   \<and> (str ''Automatic'', str ''auto'') \<in> set
       (snd (language_options unicode_excerpt auto_catalog))"
  by code_simp

text \<open>
  Claim C5. For every catalog and every permutation of its iteration order,
  \<open>target_options\<close> is sorted in ascending order of the formatted label and carries the
  same labels in the same order; it is a rearrangement of the formatted items, and the
  sort is stable: the options of one label keep the order in which the catalog was
  iterated.
\<close>

theorem target_options_sorted_stable:
  assumes "mset supported' = mset supported"
  shows "sorted (map fst (snd (language_options db supported')))
       \<and> map fst (snd (language_options db supported')) = map fst
           (snd (language_options db supported))
       \<and> mset (snd (language_options db supported'))
           = mset (map (\<lambda>(name, code). (format_language_name db name, code)) supported')
       \<and> (\<forall>label. filter (\<lambda>opt. fst opt = label)
           (snd (language_options db supported'))
             = filter (\<lambda>opt. fst opt = label)
                 (map (\<lambda>(name, code). (format_language_name db name, code)) supported'))"
proof -
  have t: "\<And>s. snd (language_options db s) = sorted_items db s"
    by (simp add: language_options_def Let_def)
  have "mset (map (\<lambda>(name, code). format_language_name db name) supported')
      = mset (map (\<lambda>(name, code). format_language_name db name) supported)"
    using assms by (simp only: mset_map)
  then have "sort (map (\<lambda>(name, code). format_language_name db name) supported')
      = sort (map (\<lambda>(name, code). format_language_name db name) supported)"
    by (simp add: properties_for_sort)
  then have "map fst (sorted_items db supported') = map fst (sorted_items db supported)"
    by (simp only: sorted_items_labels)
  then show ?thesis
    unfolding t using sorted_items_sorted sorted_items_mset sorted_items_stable by blast
qed

theorem target_options_sorted_stable_witness:
  "mset tied_catalog_permuted = mset tied_catalog
   \<and> snd (language_options unicode_excerpt tied_catalog_permuted) = [(str ''A B'', str ''y''),
       (str ''A B'', str ''x''), (str ''English'', str ''en'')]
   \<and> snd (language_options unicode_excerpt tied_catalog) = [(str ''A B'', str ''x''),
       (str ''A B'', str ''y''), (str ''English'', str ''en'')]
   \<and> sorted (map fst (snd (language_options unicode_excerpt tied_catalog_permuted)))
   \<and> map fst (snd (language_options unicode_excerpt tied_catalog_permuted)) = map fst
       (snd (language_options unicode_excerpt tied_catalog))"
proof -
  have h: "mset tied_catalog_permuted = mset tied_catalog"
    by (simp add: tied_catalog_permuted_def tied_catalog_def)
  have a: "snd (language_options unicode_excerpt tied_catalog_permuted) = [(str ''A B'', str ''y''),
      (str ''A B'', str ''x''), (str ''English'', str ''en'')]"
    by code_simp
  have b: "snd (language_options unicode_excerpt tied_catalog) = [(str ''A B'', str ''x''),
      (str ''A B'', str ''y''), (str ''English'', str ''en'')]"
    by code_simp
  note t = target_options_sorted_stable [OF h]
  show ?thesis using h a b conjunct1 [OF t] conjunct1 [OF conjunct2 [OF t]] by (intro conjI)
qed

section \<open>Facts about the loader and the render pass\<close>

lemma cache_emit [simp]: "cache (emit e st) = cache st"
  and calls_emit [simp]: "calls (emit e st) = calls st"
  and screen_emit [simp]: "screen (emit e st) = screen st @ [e]"
  by (simp_all add: emit_def)

lemma cache_invoke [simp]: "cache (invoke c st) = cache st"
  and calls_invoke [simp]: "calls (invoke c st) = calls st @ [c]"
  and screen_invoke [simp]: "screen (invoke c st) = screen st"
  by (simp_all add: invoke_def)

lemma body_calls:
  "calls (snd (get_supported_languages_body prov st)) =
     calls st @ (case class_get_supported_languages prov of
                   Inl (TypeError m) \<Rightarrow> [Call_class_accessor, Call_instance_accessor]
                 | _ \<Rightarrow> [Call_class_accessor])"
  by (simp add: get_supported_languages_body_def Let_def split: sum.splits py_exception.splits)

lemma body_no_translate:
  "filter is_translate_call (calls (snd (get_supported_languages_body prov st)))
     = filter is_translate_call (calls st)"
  by (simp add: body_calls split: sum.splits py_exception.splits)

lemma load_hit: "cache st = Some supported \<Longrightarrow> get_supported_languages prov st
    = (Inr supported, st)"
  by (simp add: get_supported_languages_def cache_data_def)

lemma load_fills:
  "get_supported_languages prov st = (Inr supported, st') \<Longrightarrow> cache st'
      = Some supported"
  by (auto simp: get_supported_languages_def cache_data_def split: option.splits prod.splits sum.splits)

lemma load_no_translate:
  "filter is_translate_call (calls (snd (get_supported_languages prov st)))
     = filter is_translate_call (calls st)"
proof (cases "cache st")
  case None
  obtain r st' where b: "get_supported_languages_body prov st
      = (r, st')" by (cases "get_supported_languages_body prov st")
  with body_no_translate [of prov st] have "filter is_translate_call (calls st')
      = filter is_translate_call (calls st)" by simp
  with None b show ?thesis
    by (cases r) (simp_all add: get_supported_languages_def cache_data_def)
next
  case (Some v)
  then show ?thesis by (simp add: load_hit)
qed

lemma cache_render_header [simp]: "cache (render_header st) = cache st"
  and calls_render_header [simp]: "calls (render_header st) = calls st"
  by (simp_all add: render_header_def)

lemma cache_render_footer [simp]: "cache (render_footer st) = cache st"
  and calls_render_footer [simp]: "calls (render_footer st) = calls st"
  by (simp_all add: render_footer_def)

lemma build_hit:
  "cache st = Some supported \<Longrightarrow>
   build_language_options db prov st = (Inr (language_options db supported), st)"
  by (simp add: build_language_options_def load_hit)

lemma build_no_translate:
  "filter is_translate_call (calls (snd (build_language_options db prov st)))
     = filter is_translate_call (calls st)"
  using load_no_translate [of prov st]
  by (cases "get_supported_languages prov st")
     (auto simp: build_language_options_def split: sum.splits)

lemma controls_no_translate:
  "filter is_translate_call (calls (snd (render_app_controls db prov inp st)))
     = filter is_translate_call (calls st)"
proof -
  obtain r st1 where b: "build_language_options db prov (render_header st) = (r, st1)"
    by (cases "build_language_options db prov (render_header st)")
  with build_no_translate [of db prov "render_header st"]
  have "filter is_translate_call (calls st1) = filter is_translate_call (calls st)" by simp
  with b show ?thesis
    by (cases r)
       (auto simp: render_app_controls_def Let_def split: option.splits prod.splits)
qed

lemma controls_hit:
  assumes "cache st = Some supported"
  shows "cache (snd (render_app_controls db prov inp st)) = Some supported
       \<and> calls (snd (render_app_controls db prov inp st)) = calls st"
proof -
  have "build_language_options db prov (render_header st)
          = (Inr (language_options db supported), render_header st)"
    using assms by (simp add: build_hit)
  then show ?thesis using assms
    by (auto simp: render_app_controls_def Let_def language_options_def split: option.splits prod.splits)
qed

lemma render_app_hit:
  assumes "cache st = Some supported"
  shows "cache (snd (render_app db prov inp st)) = Some supported
       \<and> filter (\<lambda>c. \<not> is_translate_call c) (calls
           (snd (render_app db prov inp st)))
           = filter (\<lambda>c. \<not> is_translate_call c) (calls st)"
proof -
  obtain r st1 where c: "render_app_controls db prov inp st = (r, st1)"
    by (cases "render_app_controls db prov inp st")
  with controls_hit [OF assms, of db prov inp]
  have "cache st1 = Some supported" and "calls st1 = calls st" by simp_all
  with c show ?thesis
    by (cases r)
       (auto simp: render_app_def translate_text_def split: prod.splits sum.splits)
qed

lemma render_pass_hit:
  assumes "cache st = Some supported"
  shows "cache (render_pass db pass st) = Some supported
       \<and> filter (\<lambda>c. \<not> is_translate_call c) (calls (render_pass db pass st))
           = filter (\<lambda>c. \<not> is_translate_call c) (calls st)"
proof -
  have "cache (configure_page (st\<lparr>screen := []\<rparr>)) = Some supported"
    using assms by (simp add: configure_page_def)
  from render_app_hit [OF this, of db "fst pass" "snd pass"]
  show ?thesis by (simp add: render_pass_def main_def configure_page_def)
qed

lemma render_passes_hit:
  "cache st = Some supported \<Longrightarrow>
   cache (render_passes db passes st) = Some supported
   \<and> filter (\<lambda>c. \<not> is_translate_call c) (calls (render_passes db passes st))
       = filter (\<lambda>c. \<not> is_translate_call c) (calls st)"
proof (induction passes arbitrary: st)
  case Nil
  then show ?case by (simp add: render_passes_def)
next
  case (Cons pass passes)
  from render_pass_hit [OF Cons.prems, of db pass]
  have a: "cache (render_pass db pass st) = Some supported"
    and b: "filter (\<lambda>c. \<not> is_translate_call c) (calls (render_pass db pass st))
           = filter (\<lambda>c. \<not> is_translate_call c) (calls st)" by simp_all
  from Cons.IH [OF a] b show ?case by (simp add: render_passes_def)
qed

lemma render_app_submit:
  assumes "render_app_controls db prov inp st = (Inr (source_code, target_code), st1)"
    and "translate_clicked inp"
  shows "render_app db prov inp st =
     (if strip (text_to_translate inp) = [] then
        (Inr (), emit (Warning Prompt_for_text) st1)
      else if target_code = str ''auto'' then
        (Inr (), emit (Error Target_cannot_be_auto) st1)
      else if source_code \<noteq> str ''auto'' \<and> source_code = target_code then
        (Inr (), emit (Translation_area (text_to_translate inp)) (emit (Info Same_languages) st1))
      else
        (case translate prov source_code target_code (text_to_translate inp) of
           Inr translated \<Rightarrow>
             (Inr (), render_footer (emit (Translation_area translated)
                (emit (Success Translation_done)
                  (invoke (Call_translate source_code target_code (text_to_translate inp))
                    (emit Spinner st1)))))
         | Inl exc \<Rightarrow>
             (Inr (), render_footer (emit (Expander_exception exc)
                (emit (Error Translation_failed)
                  (invoke (Call_translate source_code target_code (text_to_translate inp))
                    (emit Spinner st1)))))))"
  using assms by (simp add: render_app_def translate_text_def split: sum.splits)

lemma controls_result:
  "render_app_controls db prov inp st = (r, st1) \<Longrightarrow>
   filter is_translate_call (calls st1) = filter is_translate_call (calls st)"
  using controls_no_translate [of db prov inp st] by simp

lemma build_shape:
  assumes "build_language_options db prov st = (Inr (origin_options, target_options), st1)"
  shows "origin_options = (str ''Detectar automaticamente'', str ''auto'') # target_options"
proof -
  obtain r st' where l: "get_supported_languages prov st = (r, st')"
    by (cases "get_supported_languages prov st")
  with assms obtain supported where "r = Inr supported"
    and "language_options db supported = (origin_options, target_options)"
    by (cases r) (auto simp: build_language_options_def)
  then show ?thesis by (auto simp: language_options_def Let_def)
qed

lemma load_failure_propagates:
  assumes "build_language_options db prov (render_header st) = (Inl exc, st1)"
  shows "render_app db prov inp st = (Inl exc, st1)"
  using assms by (simp add: render_app_def render_app_controls_def)

section \<open>The claims about the loader\<close>

text \<open>
  Claim C7. The loader calls the class-level accessor first. Exactly when that call raises
  a \<open>TypeError\<close> it calls the instance-level accessor and gives that call's outcome; a
  catalog returned by the first call is returned, and any other exception of the first
  call is raised again unchanged, the instance-level accessor not being called.
\<close>

theorem loader_falls_back_on_type_error:
  "(\<forall>supported. class_get_supported_languages prov = Inr supported \<longrightarrow>
       get_supported_languages_body prov st = (Inr supported, invoke Call_class_accessor st))
   \<and> (\<forall>m. class_get_supported_languages prov = Inl (TypeError m) \<longrightarrow>
       get_supported_languages_body prov st
         = (instance_get_supported_languages prov,
            invoke Call_instance_accessor (invoke Call_class_accessor st)))
   \<and> (\<forall>cls m. class_get_supported_languages prov
       = Inl (OtherError cls m) \<longrightarrow>
       get_supported_languages_body prov st
         = (Inl (OtherError cls m), invoke Call_class_accessor st))
   \<and> take (Suc (length (calls st))) (calls (snd (get_supported_languages_body prov st)))
       = calls st @ [Call_class_accessor]
   \<and> ((Call_instance_accessor
          \<in> set (drop (length (calls st)) (calls (snd (get_supported_languages_body prov st)))))
        = (\<exists>m. class_get_supported_languages prov = Inl (TypeError m)))"
proof (intro conjI allI impI)
  fix supported assume "class_get_supported_languages prov = Inr supported"
  then show "get_supported_languages_body prov st = (Inr supported, invoke Call_class_accessor st)"
    by (simp add: get_supported_languages_body_def)
next
  fix m assume "class_get_supported_languages prov = Inl (TypeError m)"
  then show "get_supported_languages_body prov st
         = (instance_get_supported_languages prov,
            invoke Call_instance_accessor (invoke Call_class_accessor st))"
    by (simp add: get_supported_languages_body_def)
next
  fix cls m assume "class_get_supported_languages prov = Inl (OtherError cls m)"
  then show "get_supported_languages_body prov st
         = (Inl (OtherError cls m), invoke Call_class_accessor st)"
    by (simp add: get_supported_languages_body_def)
next
  show "take (Suc (length (calls st))) (calls (snd (get_supported_languages_body prov st)))
       = calls st @ [Call_class_accessor]"
    by (simp add: body_calls split: sum.splits py_exception.splits)
next
  show "(Call_instance_accessor
          \<in> set (drop (length (calls st)) (calls (snd (get_supported_languages_body prov st)))))
        = (\<exists>m. class_get_supported_languages prov = Inl (TypeError m))"
    by (simp add: body_calls split: sum.splits py_exception.splits)
qed

theorem loader_falls_back_on_type_error_witness:
  "class_get_supported_languages legacy_provider
      = Inl (TypeError ''missing 1 required positional argument'')
   \<and> get_supported_languages_body legacy_provider initial_state
      = (instance_get_supported_languages legacy_provider,
         invoke Call_instance_accessor (invoke Call_class_accessor initial_state))
   \<and> fst (get_supported_languages_body legacy_provider initial_state) = Inr example_catalog
   \<and> calls (snd (get_supported_languages_body legacy_provider initial_state))
      = [Call_class_accessor, Call_instance_accessor]
   \<and> class_get_supported_languages unreachable_provider
      = Inl (OtherError ''ConnectionError'' ''provider unreachable'')
   \<and> get_supported_languages_body unreachable_provider initial_state
      = (Inl (OtherError ''ConnectionError'' ''provider unreachable''),
         invoke Call_class_accessor initial_state)"
proof -
  have h1: "class_get_supported_languages legacy_provider
      = Inl (TypeError ''missing 1 required positional argument'')"
    by (simp add: legacy_provider_def)
  have h2: "class_get_supported_languages unreachable_provider
      = Inl (OtherError ''ConnectionError'' ''provider unreachable'')"
    by (simp add: unreachable_provider_def connection_error_def)
  note t1 = loader_falls_back_on_type_error [of legacy_provider initial_state]
  note t2 = loader_falls_back_on_type_error [of unreachable_provider initial_state]
  have a: "get_supported_languages_body legacy_provider initial_state
      = (instance_get_supported_languages legacy_provider,
         invoke Call_instance_accessor (invoke Call_class_accessor initial_state))"
    using conjunct1 [OF conjunct2 [OF t1]] h1 by blast
  have b: "get_supported_languages_body unreachable_provider initial_state
      = (Inl (OtherError ''ConnectionError'' ''provider unreachable''),
         invoke Call_class_accessor initial_state)"
    using conjunct1 [OF conjunct2 [OF conjunct2 [OF t2]]] h2 by blast
  have c: "fst (get_supported_languages_body legacy_provider initial_state) = Inr example_catalog"
    by code_simp
  have d: "calls (snd (get_supported_languages_body legacy_provider initial_state))
      = [Call_class_accessor, Call_instance_accessor]"
    by code_simp
  show ?thesis using h1 a c d h2 b by (intro conjI)
qed

text \<open>
  Claim C9. The catalog is memoized for the life of the process: once a load has returned
  a catalog, the entry is filled, and after any number of render passes, whatever the
  provider would answer by then, the loader returns that same catalog and leaves the state
  as it is, so that no provider operation is invoked; nor do those passes invoke any
  catalog accessor.
\<close>

theorem catalog_memoized:
  assumes "get_supported_languages prov st = (Inr supported, st1)"
  shows "cache st1 = Some supported
       \<and> get_supported_languages prov' (render_passes db passes st1)
           = (Inr supported, render_passes db passes st1)
       \<and> filter (\<lambda>c. \<not> is_translate_call c) (calls (render_passes db passes st1))
           = filter (\<lambda>c. \<not> is_translate_call c) (calls st1)"
proof -
  from assms have c: "cache st1 = Some supported" by (rule load_fills)
  from render_passes_hit [OF c, of db passes]
  have "cache (render_passes db passes st1) = Some supported"
    and k: "filter (\<lambda>c. \<not> is_translate_call c) (calls (render_passes db passes st1))
           = filter (\<lambda>c. \<not> is_translate_call c) (calls st1)"
    by simp_all
  then have "get_supported_languages prov' (render_passes db passes st1)
           = (Inr supported, render_passes db passes st1)"
    by (simp add: load_hit)
  with c k show ?thesis by (intro conjI)
qed

theorem catalog_memoized_witness:
  "get_supported_languages (example_provider example_catalog) initial_state
      = (Inr example_catalog, loaded_state example_catalog)
   \<and> cache (loaded_state example_catalog) = Some example_catalog
   \<and> get_supported_languages unreachable_provider
        (render_passes unicode_excerpt later_passes (loaded_state example_catalog))
      = (Inr example_catalog, render_passes unicode_excerpt later_passes
          (loaded_state example_catalog))
   \<and> calls (render_passes unicode_excerpt later_passes (loaded_state example_catalog))
      = [Call_class_accessor, Call_translate (str ''auto'') (str ''pt'') (str ''Hello world'')]"
proof -
  have h: "get_supported_languages (example_provider example_catalog) initial_state
      = (Inr example_catalog, loaded_state example_catalog)"
    by code_simp
  have b: "calls (render_passes unicode_excerpt later_passes (loaded_state example_catalog))
      = [Call_class_accessor, Call_translate (str ''auto'') (str ''pt'') (str ''Hello world'')]"
    by code_simp
  note t = catalog_memoized [OF h, of unreachable_provider unicode_excerpt later_passes]
  show ?thesis using h conjunct1 [OF t] conjunct1 [OF conjunct2 [OF t]] b by (intro conjI)
qed

section \<open>The claims about the render pass\<close>

text \<open>
  Claim C1. On submit the checks run in a fixed order, before the provider is asked to
  translate: when the stripped text is empty, the pass ends with the warning that asks for
  a text; otherwise, when the target code is \<open>"auto"\<close>, it ends with the error that the
  target cannot be \<open>"auto"\<close>. In both cases nothing is invoked after the controls are
  rendered and the whole pass makes no translate call; with the catalog already in the
  cache, the pass invokes no provider operation at all.
\<close>

theorem validation_rejects_before_translate:
  assumes "render_app_controls db prov inp st = (Inr (source_code, target_code), st1)"
    and "translate_clicked inp"
  shows "(strip (text_to_translate inp) = [] \<longrightarrow>
            render_app db prov inp st = (Inr (), emit (Warning Prompt_for_text) st1))
       \<and> (strip (text_to_translate inp) \<noteq> [] \<and> target_code
           = str ''auto'' \<longrightarrow>
            render_app db prov inp st = (Inr (), emit (Error Target_cannot_be_auto) st1))
       \<and> (strip (text_to_translate inp) = [] \<or> target_code = str ''auto'' \<longrightarrow>
            calls (snd (render_app db prov inp st)) = calls st1
            \<and> filter is_translate_call (calls (snd (render_app db prov inp st)))
                = filter is_translate_call (calls st)
            \<and> (cache st \<noteq> None \<longrightarrow> calls (snd (render_app db prov inp st))
                = calls st))"
proof -
  have "cache st \<noteq> None \<longrightarrow> calls st1 = calls st"
    using controls_hit [of st _ db prov inp] assms(1) by auto
  with render_app_submit [OF assms] controls_result [OF assms(1)] show ?thesis by auto
qed

theorem validation_rejects_before_translate_witness:
  "fst (render_app_controls unicode_excerpt (example_provider example_catalog) blank_submit
      (loaded_state example_catalog))
      = Inr (str ''en'', str ''en'')
   \<and> translate_clicked blank_submit
   \<and> strip (text_to_translate blank_submit) = []
   \<and> render_app unicode_excerpt (example_provider example_catalog) blank_submit
       (loaded_state example_catalog)
      = (Inr (), emit (Warning Prompt_for_text)
           (snd (render_app_controls unicode_excerpt (example_provider example_catalog) blank_submit
               (loaded_state example_catalog))))
   \<and> calls (snd (render_app unicode_excerpt (example_provider example_catalog) blank_submit
       (loaded_state example_catalog)))
      = [Call_class_accessor]
   \<and> fst (render_app_controls unicode_excerpt
       (example_provider auto_catalog) auto_target_submit (loaded_state auto_catalog))
      = Inr (str ''auto'', str ''auto'')
   \<and> translate_clicked auto_target_submit
   \<and> strip (text_to_translate auto_target_submit) \<noteq> []
   \<and> render_app unicode_excerpt (example_provider auto_catalog) auto_target_submit
       (loaded_state auto_catalog)
      = (Inr (), emit (Error Target_cannot_be_auto)
           (snd (render_app_controls unicode_excerpt
               (example_provider auto_catalog) auto_target_submit (loaded_state auto_catalog))))
   \<and> calls (snd (render_app unicode_excerpt (example_provider auto_catalog) auto_target_submit
       (loaded_state auto_catalog)))
      = [Call_class_accessor]
   \<and> fst (render_app_controls unicode_excerpt (example_provider auto_catalog) nbsp_submit
             (loaded_state auto_catalog))
      = Inr (str ''auto'', str ''auto'')
   \<and> translate_clicked nbsp_submit
   \<and> text_to_translate nbsp_submit = [160, 8195]
   \<and> strip (text_to_translate nbsp_submit) = []
   \<and> render_app unicode_excerpt (example_provider auto_catalog) nbsp_submit
        (loaded_state auto_catalog)
      = (Inr (), emit (Warning Prompt_for_text)
           (snd (render_app_controls unicode_excerpt (example_provider auto_catalog) nbsp_submit
                   (loaded_state auto_catalog))))"
proof -
  let ?c3 = "render_app_controls unicode_excerpt (example_provider auto_catalog) nbsp_submit
               (loaded_state auto_catalog)"
  have f3: "fst ?c3 = Inr (str ''auto'', str ''auto'')" by code_simp
  from f3 have h3: "?c3 = (Inr (str ''auto'', str ''auto''), snd ?c3)" by (metis prod.collapse)
  have k3: "translate_clicked nbsp_submit" by code_simp
  have x3: "text_to_translate nbsp_submit = [160, 8195]" by code_simp
  have s3: "strip (text_to_translate nbsp_submit) = []" by code_simp
  note t3 = validation_rejects_before_translate [OF h3 k3]
  have a3: "render_app unicode_excerpt (example_provider auto_catalog) nbsp_submit
        (loaded_state auto_catalog)
      = (Inr (), emit (Warning Prompt_for_text) (snd ?c3))"
    using conjunct1 [OF t3] s3 by (rule mp)
  let ?c1 = "render_app_controls unicode_excerpt (example_provider example_catalog) blank_submit
      (loaded_state example_catalog)"
  let ?c2 = "render_app_controls unicode_excerpt (example_provider auto_catalog) auto_target_submit
      (loaded_state auto_catalog)"
  have f1: "fst ?c1 = Inr (str ''en'', str ''en'')" by code_simp
  have f2: "fst ?c2 = Inr (str ''auto'', str ''auto'')" by code_simp
  from f1 have h1: "?c1 = (Inr (str ''en'', str ''en''), snd ?c1)" by (metis prod.collapse)
  from f2 have h2: "?c2 = (Inr (str ''auto'', str ''auto''), snd ?c2)" by (metis prod.collapse)
  have k1: "translate_clicked blank_submit" by code_simp
  have k2: "translate_clicked auto_target_submit" by code_simp
  have s1: "strip (text_to_translate blank_submit) = []" by code_simp
  have s2: "strip (text_to_translate auto_target_submit) \<noteq> []" by code_simp
  note t1 = validation_rejects_before_translate [OF h1 k1]
  note t2 = validation_rejects_before_translate [OF h2 k2]
  have a: "render_app unicode_excerpt (example_provider example_catalog) blank_submit
      (loaded_state example_catalog)
      = (Inr (), emit (Warning Prompt_for_text) (snd ?c1))"
    using conjunct1 [OF t1] s1 by (rule mp)
  have b: "render_app unicode_excerpt (example_provider auto_catalog) auto_target_submit
      (loaded_state auto_catalog)
      = (Inr (), emit (Error Target_cannot_be_auto) (snd ?c2))"
    using conjunct1 [OF conjunct2 [OF t2]] s2 by simp
  have c1: "calls (snd (render_app unicode_excerpt (example_provider example_catalog) blank_submit
      (loaded_state example_catalog)))
      = [Call_class_accessor]" by code_simp
  have c2: "calls (snd (render_app unicode_excerpt
      (example_provider auto_catalog) auto_target_submit (loaded_state auto_catalog)))
      = [Call_class_accessor]" by code_simp
  show ?thesis using f1 k1 s1 a c1 f2 k2 s2 b c2 f3 k3 x3 s3 a3 by (intro conjI)
qed

text \<open>
  Claim C2, as amended. Echo law: for every submission whose source code equals its
  target code and is not \<open>"auto"\<close>, the translate operation is not invoked; when moreover
  the stripped text is not empty, the text shown as translation is the input text itself,
  unchanged.
\<close>

theorem same_language_echo:
  assumes "render_app_controls db prov inp st = (Inr (source_code, target_code), st1)"
    and "translate_clicked inp"
    and "source_code = target_code"
    and "source_code \<noteq> str ''auto''"
  shows "calls (snd (render_app db prov inp st)) = calls st1
       \<and> filter is_translate_call (calls (snd (render_app db prov inp st)))
           = filter is_translate_call (calls st)
       \<and> (strip (text_to_translate inp) \<noteq> [] \<longrightarrow>
            render_app db prov inp st
              = (Inr (), emit (Translation_area (text_to_translate inp))
                           (emit (Info Same_languages) st1)))"
  using render_app_submit [OF assms(1,2)] controls_result [OF assms(1)] assms(3,4) by auto

theorem same_language_echo_witness:
  "fst (render_app_controls unicode_excerpt (example_provider example_catalog) echo_submit
      (loaded_state example_catalog))
      = Inr (str ''en'', str ''en'')
   \<and> translate_clicked echo_submit
   \<and> strip (text_to_translate echo_submit) = str ''Test''
   \<and> render_app unicode_excerpt (example_provider example_catalog) echo_submit
       (loaded_state example_catalog)
      = (Inr (), emit (Translation_area (text_to_translate echo_submit))
           (emit (Info Same_languages)
              (snd (render_app_controls unicode_excerpt
                  (example_provider example_catalog) echo_submit (loaded_state example_catalog)))))
   \<and> text_to_translate echo_submit = str '' Test ''
   \<and> calls (snd (render_app unicode_excerpt (example_provider example_catalog) echo_submit
       (loaded_state example_catalog)))
      = [Call_class_accessor]"
proof -
  let ?c = "render_app_controls unicode_excerpt (example_provider example_catalog) echo_submit
      (loaded_state example_catalog)"
  have f: "fst ?c = Inr (str ''en'', str ''en'')" by code_simp
  then have h: "?c = (Inr (str ''en'', str ''en''), snd ?c)" by (metis prod.collapse)
  have k: "translate_clicked echo_submit" by code_simp
  have s: "strip (text_to_translate echo_submit) = str ''Test''" by code_simp
  then have s': "strip (text_to_translate echo_submit) \<noteq> []" by (simp add: str_def)
  have n: "str ''en'' \<noteq> str ''auto''" by (simp add: str_def)
  note t = same_language_echo [OF h k refl n]
  have x: "text_to_translate echo_submit = str '' Test ''" by code_simp
  have c: "calls (snd (render_app unicode_excerpt (example_provider example_catalog) echo_submit
      (loaded_state example_catalog)))
      = [Call_class_accessor]" by code_simp
  have e: "render_app unicode_excerpt (example_provider example_catalog) echo_submit
              (loaded_state example_catalog)
      = (Inr (), emit (Translation_area (text_to_translate echo_submit))
           (emit (Info Same_languages) (snd ?c)))"
    using conjunct2 [OF conjunct2 [OF t]] s' by (rule mp)
  show ?thesis using f k s e x c by (intro conjI)
qed

theorem same_language_echo_counterexample:
  "fst (render_app_controls unicode_excerpt (example_provider example_catalog) blank_submit
      (loaded_state example_catalog))
      = Inr (str ''en'', str ''en'')
   \<and> translate_clicked blank_submit
   \<and> text_to_translate blank_submit = str ''   ''
   \<and> screen (snd (render_app unicode_excerpt (example_provider example_catalog) blank_submit
       (loaded_state example_catalog)))
      = [Title, Caption, Divider, Subheader, Text_area_input, Blank,
         Selectbox_origin
           example_origin_options 0,
         Selectbox_target
           example_target_options 1,
         Blank, Button, Warning Prompt_for_text]
   \<and> Translation_area (str ''   '')
        \<notin> set (screen (snd (render_app unicode_excerpt
            (example_provider example_catalog) blank_submit (loaded_state example_catalog))))"
  by code_simp

text \<open>
  Claim C4, as amended. Every exception raised by the translate invocation is caught in
  \<open>render_app\<close>: the page shows the generic failure message and an expander holding the
  caught exception, the footer is rendered and the function returns normally. An
  exception raised by the catalog load is not caught by the program: it leaves
  \<open>render_app\<close> as it was raised, before any control is rendered.
\<close>

theorem translate_failure_is_caught:
  "(render_app_controls db prov inp st = (Inr (source_code, target_code), st1)
      \<and> translate_clicked inp
      \<and> strip (text_to_translate inp) \<noteq> []
      \<and> target_code \<noteq> str ''auto''
      \<and> \<not> (source_code \<noteq> str ''auto'' \<and> source_code = target_code)
      \<and> translate prov source_code target_code (text_to_translate inp) = Inl exc
    \<longrightarrow> render_app db prov inp st
          = (Inr (), render_footer (emit (Expander_exception exc)
               (emit (Error Translation_failed)
                 (invoke (Call_translate source_code target_code (text_to_translate inp))
                   (emit Spinner st1))))))
   \<and> (build_language_options db prov (render_header st) = (Inl exc', st')
    \<longrightarrow> render_app db prov inp st = (Inl exc', st'))"
proof (intro conjI impI)
  assume a: "render_app_controls db prov inp st = (Inr (source_code, target_code), st1)
      \<and> translate_clicked inp
      \<and> strip (text_to_translate inp) \<noteq> []
      \<and> target_code \<noteq> str ''auto''
      \<and> \<not> (source_code \<noteq> str ''auto'' \<and> source_code = target_code)
      \<and> translate prov source_code target_code (text_to_translate inp) = Inl exc"
  then have c: "render_app_controls db prov inp st = (Inr (source_code, target_code), st1)"
    and k: "translate_clicked inp" by simp_all
  from render_app_submit [OF c k] a
  show "render_app db prov inp st
          = (Inr (), render_footer (emit (Expander_exception exc)
               (emit (Error Translation_failed)
                 (invoke (Call_translate source_code target_code (text_to_translate inp))
                   (emit Spinner st1)))))"
    by auto
next
  assume "build_language_options db prov (render_header st) = (Inl exc', st')"
  then show "render_app db prov inp st = (Inl exc', st')" by (rule load_failure_propagates)
qed

theorem translate_failure_is_caught_witness:
  "fst (render_app_controls unicode_excerpt failing_translate_provider hello_submit
      (loaded_state example_catalog))
      = Inr (str ''auto'', str ''pt'')
   \<and> translate failing_translate_provider (str ''auto'')
       (str ''pt'') (text_to_translate hello_submit)
      = Inl connection_error
   \<and> render_app unicode_excerpt failing_translate_provider hello_submit
       (loaded_state example_catalog)
      = (Inr (), render_footer (emit (Expander_exception connection_error)
           (emit (Error Translation_failed)
             (invoke (Call_translate (str ''auto'') (str ''pt'') (text_to_translate hello_submit))
               (emit Spinner
                 (snd (render_app_controls unicode_excerpt failing_translate_provider hello_submit
                         (loaded_state example_catalog))))))))
   \<and> drop 10 (screen (snd (render_app unicode_excerpt failing_translate_provider hello_submit
       (loaded_state example_catalog))))
      = [Spinner, Error Translation_failed, Expander_exception connection_error,
         Divider, Footer_caption]
   \<and> fst (build_language_options unicode_excerpt unreachable_provider (render_header
       initial_state))
      = Inl connection_error
   \<and> render_app unicode_excerpt unreachable_provider first_render initial_state
      = (Inl connection_error,
         snd (build_language_options unicode_excerpt unreachable_provider (render_header
             initial_state)))"
proof -
  let ?c = "render_app_controls unicode_excerpt failing_translate_provider hello_submit
      (loaded_state example_catalog)"
  let ?b = "build_language_options unicode_excerpt unreachable_provider (render_header
      initial_state)"
  have f: "fst ?c = Inr (str ''auto'', str ''pt'')" by code_simp
  then have h: "?c = (Inr (str ''auto'', str ''pt''), snd ?c)" by (metis prod.collapse)
  have k: "translate_clicked hello_submit" by code_simp
  have s: "strip (text_to_translate hello_submit) \<noteq> []" by code_simp
  have n1: "str ''pt'' \<noteq> str ''auto''" by (simp add: str_def)
  have n2: "\<not> (str ''auto'' \<noteq> str ''auto'' \<and> str ''auto''
      = str ''pt'')" by (simp add: str_def)
  have e: "translate failing_translate_provider (str ''auto'')
      (str ''pt'') (text_to_translate hello_submit)
      = Inl connection_error"
    by (simp add: failing_translate_provider_def)
  have g: "fst ?b = Inl connection_error" by code_simp
  then have g': "?b = (Inl connection_error, snd ?b)" by (metis prod.collapse)
  note t1 = translate_failure_is_caught
    [of unicode_excerpt failing_translate_provider hello_submit
        "loaded_state example_catalog" "str ''auto''" "str ''pt''" "snd ?c" connection_error]
  note t2 = translate_failure_is_caught
    [of unicode_excerpt unreachable_provider first_render initial_state _ _ _ _
        connection_error "snd ?b"]
  have a: "render_app unicode_excerpt failing_translate_provider hello_submit
      (loaded_state example_catalog)
      = (Inr (), render_footer (emit (Expander_exception connection_error)
           (emit (Error Translation_failed)
             (invoke (Call_translate (str ''auto'') (str ''pt'') (text_to_translate hello_submit))
               (emit Spinner (snd ?c))))))"
    using conjunct1 [OF t1] h k s n1 n2 e by blast
  have b: "render_app unicode_excerpt unreachable_provider first_render initial_state
      = (Inl connection_error, snd ?b)"
    using conjunct2 [OF t2] g' by (rule mp)
  have d: "drop 10 (screen (snd (render_app unicode_excerpt failing_translate_provider hello_submit
      (loaded_state example_catalog))))
      = [Spinner, Error Translation_failed, Expander_exception connection_error,
         Divider, Footer_caption]" by code_simp
  show ?thesis using f e a d g b by (intro conjI)
qed

theorem catalog_failure_counterexample:
  "main unicode_excerpt unreachable_provider first_render initial_state
     = (Inl (OtherError ''ConnectionError'' ''provider unreachable''),
        \<lparr>cache = None, calls = [Call_class_accessor],
         screen = [Page_config, Title, Caption, Divider]\<rparr>)"
  by code_simp

text \<open>
  Claim C8. On the first render the source select box is given the index of the option
  with code \<open>"auto"\<close> in \<open>origin_options\<close> (the first entry), and the target select box
  the index of the option with code \<open>"en"\<close> in \<open>target_options\<close>; each index is found by
  \<open>find_index\<close>, the scan from the left for the first option of that code, and is \<open>0\<close>
  when no option has the code. The codes selected are the ones at these indices.
\<close>

theorem default_selections:
  assumes "build_language_options db prov (render_header st)
             = (Inr (origin_options, target_options), st1)"
    and "source_choice inp = None"
    and "target_choice inp = None"
  shows "find_index origin_options (str ''auto'') = 0
       \<and> snd (origin_options ! find_index origin_options (str ''auto'')) = str ''auto''
       \<and> Selectbox_origin origin_options (find_index origin_options (str ''auto''))
           \<in> set (screen (snd (render_app_controls db prov inp st)))
       \<and> Selectbox_target target_options (find_index target_options (str ''en''))
           \<in> set (screen (snd (render_app_controls db prov inp st)))
       \<and> (str ''en'' \<in> snd ` set target_options \<longrightarrow>
             find_index target_options (str ''en'') < length target_options
             \<and> snd (target_options ! find_index target_options (str ''en'')) = str ''en''
             \<and> (\<forall>j < find_index target_options (str ''en''). snd (target_options ! j)
                 \<noteq> str ''en''))
       \<and> (str ''en'' \<notin> snd ` set target_options \<longrightarrow> find_index target_options (str ''en'') = 0)
       \<and> (target_options \<noteq> [] \<longrightarrow>
             fst (render_app_controls db prov inp st)
               = Inr (str ''auto'', snd (target_options ! find_index target_options (str ''en''))))"
proof -
  from build_shape [OF assms(1)]
  have o: "origin_options = (str ''Detectar automaticamente'', str ''auto'') # target_options" .
  then have i0: "find_index origin_options (str ''auto'') = 0" by (simp add: find_index_def)
  with o have c0: "snd (origin_options ! find_index origin_options (str ''auto''))
      = str ''auto''" by simp
  from o i0 assms(2)
  have s0: "selectbox origin_options (find_index origin_options default_source) (source_choice inp)
      = Some (str ''Detectar automaticamente'', str ''auto'')"
    by (simp add: selectbox_def default_source_def)
  have st: "selectbox target_options (find_index target_options default_target) (target_choice inp)
      = (if target_options = [] then None
         else Some (target_options ! find_index target_options (str ''en'')))"
    using assms(3) find_index_in_bounds [of target_options "str ''en''"]
    by (simp add: selectbox_def default_target_def)
  have scr: "Selectbox_origin origin_options (find_index origin_options (str ''auto''))
           \<in> set (screen (snd (render_app_controls db prov inp st)))
       \<and> Selectbox_target target_options (find_index target_options (str ''en''))
           \<in> set (screen (snd (render_app_controls db prov inp st)))"
    using assms(1) s0 st
    by (cases "target_options ! find_index target_options (str ''en'')")
       (simp add: render_app_controls_def Let_def default_source_def default_target_def)
  have res: "target_options \<noteq> [] \<longrightarrow>
             fst (render_app_controls db prov inp st)
               = Inr (str ''auto'', snd (target_options ! find_index target_options (str ''en'')))"
    using assms(1) s0 st
    by (cases "target_options ! find_index target_options (str ''en'')")
       (simp add: render_app_controls_def Let_def default_source_def default_target_def)
  from i0 c0 scr res find_index_present [of "str ''en''" target_options]
    find_index_absent [of "str ''en''" target_options]
  show ?thesis by blast
qed

theorem default_selections_witness:
  "fst (build_language_options unicode_excerpt (example_provider example_catalog) (render_header
      initial_state))
      = Inr (example_origin_options,
             example_target_options)
   \<and> source_choice first_render = None
   \<and> target_choice first_render = None
   \<and> find_index example_target_options (str ''en'') = 1
   \<and> fst (render_app_controls unicode_excerpt (example_provider example_catalog) first_render
       initial_state)
      = Inr (str ''auto'',
             snd (example_target_options
                    ! find_index example_target_options (str ''en'')))
   \<and> fst (render_app_controls unicode_excerpt (example_provider example_catalog) first_render
       initial_state)
      = Inr (str ''auto'', str ''en'')
   \<and> fst (build_language_options unicode_excerpt (example_provider auto_catalog) (render_header
       initial_state))
      = Inr ([(str ''Detectar automaticamente'', str ''auto''), (str ''Automatic'', str ''auto'')],
             [(str ''Automatic'', str ''auto'')])
   \<and> str ''en'' \<notin> snd ` set [(str ''Automatic'', str ''auto'')]
   \<and> find_index [(str ''Automatic'', str ''auto'')] (str ''en'') = 0"
proof -
  let ?b1 = "build_language_options unicode_excerpt (example_provider example_catalog)
      (render_header initial_state)"
  let ?b2 = "build_language_options unicode_excerpt (example_provider auto_catalog) (render_header
      initial_state)"
  let ?o1 = "example_origin_options"
  let ?t1 = "example_target_options"
  let ?o2 = "[(str ''Detectar automaticamente'', str ''auto''), (str ''Automatic'', str ''auto'')]"
  let ?t2 = "[(str ''Automatic'', str ''auto'')]"
  have f1: "fst ?b1 = Inr (?o1, ?t1)" by code_simp
  then have h1: "?b1 = (Inr (?o1, ?t1), snd ?b1)" by (metis prod.collapse)
  have f2: "fst ?b2 = Inr (?o2, ?t2)" by code_simp
  then have h2: "?b2 = (Inr (?o2, ?t2), snd ?b2)" by (metis prod.collapse)
  have s: "source_choice first_render = None" by (simp add: first_render_def)
  have t: "target_choice first_render = None" by (simp add: first_render_def)
  have ne: "?t1 \<noteq> []" by code_simp
  have absent: "str ''en'' \<notin> snd ` set ?t2" by (simp add: str_def)
  note w1 = default_selections [OF h1 s t]
  note w2 = default_selections [OF h2 s t]
  have a: "fst (render_app_controls unicode_excerpt (example_provider example_catalog) first_render
      initial_state)
      = Inr (str ''auto'', snd (?t1 ! find_index ?t1 (str ''en'')))"
    using w1 ne by blast
  have b: "find_index ?t2 (str ''en'') = 0" using w2 absent by blast
  have i: "find_index ?t1 (str ''en'') = 1" by code_simp
  have r: "fst (render_app_controls unicode_excerpt (example_provider example_catalog) first_render
      initial_state)
      = Inr (str ''auto'', str ''en'')" by code_simp
  show ?thesis using f1 s t i a r f2 absent b by (intro conjI)
qed

end
